theory Spec2Isabelle
  imports Complex_Main "HOL-Library.Sublist"
begin

section \<open>Python strings\<close>

text \<open>
  A Python \<open>str\<close> is a sequence of Unicode code points, so it is modelled as a list of
  code points (natural numbers), not as a list of bytes: the source's literals hold
  characters beyond Latin-1, and \<open>str.strip\<close> removes Unicode white space.
  Every list of well-formed text is such a list; a statement proved for all lists holds
  for all strings.
\<close>

type_synonym codepoint = nat
type_synonym pystr = "codepoint list"

definition lit :: "string \<Rightarrow> pystr" where
  "lit s = map of_char s"

definition nl :: pystr where
  "nl = [10]"

definition dq :: pystr where
  "dq = [34]"

text \<open>\<open>str(n)\<close> for an integer, as an f-string formats it.\<close>

fun digits :: "nat \<Rightarrow> pystr" where
  "digits n = (if n < 10 then [48 + n] else digits (n div 10) @ [48 + n mod 10])"

definition str_int :: "int \<Rightarrow> pystr" where
  "str_int i = (if i < 0 then 45 # digits (nat (- i)) else digits (nat i))"

text \<open>
  An f-string field formats its value with \<open>format(v, '')\<close>: a string is inserted as it is,
  and \<open>None\<close> becomes the four characters \<open>None\<close>. The provider's text may be absent
  (\<open>message.content\<close> is optional), so values that come from it are \<open>pystr option\<close>.
\<close>

fun fmt :: "pystr option \<Rightarrow> pystr" where
  "fmt None = lit ''None''"
| "fmt (Some s) = s"

text \<open>\<open>sep.join(xs)\<close>\<close>

fun join :: "pystr \<Rightarrow> pystr list \<Rightarrow> pystr" where
  "join sep [] = []"
| "join sep [x] = x"
| "join sep (x # y # ys) = x @ sep @ join sep (y # ys)"

text \<open>
  \<open>str.isspace\<close> for one code point: the characters CPython's \<open>_PyUnicode_IsWhitespace\<close>
  accepts, which are the ones \<open>str.strip()\<close> removes.
\<close>

definition is_space :: "codepoint \<Rightarrow> bool" where
  "is_space c \<longleftrightarrow>
     (9 \<le> c \<and> c \<le> 13) \<or> (28 \<le> c \<and> c \<le> 32) \<or> c = 133 \<or> c = 160 \<or> c = 5760 \<or>
     (8192 \<le> c \<and> c \<le> 8202) \<or> c = 8232 \<or> c = 8233 \<or> c = 8239 \<or> c = 8287 \<or> c = 12288"

definition lstrip :: "pystr \<Rightarrow> pystr" where
  "lstrip s = dropWhile is_space s"

definition rstrip :: "pystr \<Rightarrow> pystr" where
  "rstrip s = rev (dropWhile is_space (rev s))"

definition strip :: "pystr \<Rightarrow> pystr" where
  "strip s = rstrip (lstrip s)"

text \<open>
  \<open>s.encode("utf-8")\<close> raises \<open>UnicodeEncodeError\<close> exactly when the string holds a
  surrogate code point (U+D800 to U+DFFF).
\<close>

definition is_surrogate :: "codepoint \<Rightarrow> bool" where
  "is_surrogate c \<longleftrightarrow> 55296 \<le> c \<and> c \<le> 57343"

definition utf8_encodable :: "pystr \<Rightarrow> bool" where
  "utf8_encodable s \<longleftrightarrow> \<not> list_ex is_surrogate s"

text \<open>
  \<open>s.split(sep)\<close> for a separator of one character: the pieces between the separators,
  empty pieces kept, one piece for the empty string.
\<close>

fun split :: "codepoint \<Rightarrow> pystr \<Rightarrow> pystr list" where
  "split sep [] = [[]]"
| "split sep (c # cs) =
     (if c = sep then [] # split sep cs
      else (case split sep cs of
              [] \<Rightarrow> [[c]]
            | p # ps \<Rightarrow> (c # p) # ps))"

section \<open>The provider and \<open>call_llm\<close>\<close>

text \<open>
  A request that reaches the service: the keyword arguments of
  \<open>client.chat.completions.create\<close>, with the key the client holds. A message is the
  pair of its \<open>role\<close> and its \<open>content\<close>.
\<close>

type_synonym message = "pystr \<times> pystr"

record request =
  rq_api_key :: "pystr option"
  rq_model :: pystr
  rq_messages :: "message list"
  rq_temperature :: real
  rq_max_tokens :: int

text \<open>
  What \<open>create\<close> does with a request: it raises (authentication, rate limit, network,
  invalid parameters), carrying a message, or it returns a response whose \<open>choices\<close>
  each hold an optional \<open>message.content\<close>.
\<close>

datatype response = Raises pystr | Response "pystr option list"

text \<open>
  The provider is outside the program and is a parameter. It has two parts: the variable
  \<open>OPENAI_API_KEY\<close> of the process environment, which the constructor \<open>OpenAI\<close> reads
  when it is given no key, and the answer of the service, a function of the number of
  requests made before and of the request, so that it may differ from call to call.
\<close>

record provider =
  environ_key :: "pystr option"
  answer :: "nat \<Rightarrow> request \<Rightarrow> response"

text \<open>
  The exceptions of a run: the one \<open>create\<close> raises, with its message; \<open>OpenAIError\<close>,
  which the constructor \<open>OpenAI\<close> raises when it finds no key; and three of Python's own.
\<close>

datatype exn =
    ProviderException pystr
  | OpenAIError
  | IndexError
  | AttributeError
  | UnicodeEncodeError

text \<open>
  \<open>call_llm\<close> builds the client with \<open>api_key if api_key else None\<close>. Given \<open>None\<close>, the
  constructor takes the key of the environment, and raises \<open>OpenAIError\<close> when there is
  none: then \<open>create\<close> is not called and no request is made. Otherwise the request is
  made and \<open>resp.choices[0].message.content\<close> is returned. The state is the log of the
  requests made. No exception is caught; \<open>choices[0]\<close> of an empty list raises
  \<open>IndexError\<close>.
\<close>

definition call_llm ::
  "provider \<Rightarrow> message list \<Rightarrow> pystr \<Rightarrow> pystr \<Rightarrow> real \<Rightarrow> int \<Rightarrow> request list
     \<Rightarrow> (exn + pystr option) \<times> request list" where
  "call_llm provider messages api_key model temperature max_tokens sent =
     (case (case (if api_key \<noteq> [] then Some api_key else None) of
              None \<Rightarrow> environ_key provider
            | Some k \<Rightarrow> Some k) of
        None \<Rightarrow> (Inl OpenAIError, sent)
      | Some k \<Rightarrow>
          (let rq = \<lparr>rq_api_key = Some k,
                     rq_model = model,
                     rq_messages = messages,
                     rq_temperature = temperature,
                     rq_max_tokens = max_tokens\<rparr>
           in (case answer provider (length sent) rq of
                 Raises m \<Rightarrow> Inl (ProviderException m)
               | Response [] \<Rightarrow> Inl IndexError
               | Response (c # _) \<Rightarrow> Inr c,
               sent @ [rq])))"

section \<open>Agents\<close>

text \<open>The sidebar's settings, which the agents read as module-level globals.\<close>

record settings =
  api_key :: pystr
  model :: pystr
  temperature :: real
  max_tokens :: int
  show_steps :: bool

record AgentResult =
  role :: pystr
  "output" :: "pystr option"

text \<open>\<open>', '.join(keywords) if keywords else 'N/A'\<close>\<close>

definition keywords_field :: "pystr list \<Rightarrow> pystr" where
  "keywords_field keywords = (if keywords \<noteq> [] then join (lit '', '') keywords else lit ''N/A'')"

subsection \<open>\<open>research_agent\<close>\<close>

definition research_system :: pystr where
  "research_system = lit ''You are a meticulous research analyst. You gather factual points, recent statistics (with source names), and 5-8 key references/links. Use bullet points.''"

definition research_user :: "pystr \<Rightarrow> pystr \<Rightarrow> pystr \<Rightarrow> pystr list \<Rightarrow> pystr" where
  "research_user topic audience tone keywords =
     nl @ lit ''Topic: '' @ topic @
     nl @ lit ''Audience: '' @ audience @
     nl @ lit ''Tone: '' @ tone @
     nl @ lit ''Target keywords: '' @ keywords_field keywords @
     nl @
     nl @ lit ''Return:'' @
     nl @ lit ''- 8-12 bullet points of facts with brief context'' @
     nl @ lit ''- A short list of recent stats (if relevant)'' @
     nl @ lit ''- 5-8 suggested sources/links (non-paywalled when possible)'' @
     nl @ lit ''Avoid fabricating URLs.'' @
     nl"

definition research_agent ::
  "provider \<Rightarrow> settings \<Rightarrow> pystr \<Rightarrow> pystr \<Rightarrow> pystr \<Rightarrow> pystr list \<Rightarrow> request list
     \<Rightarrow> (exn + AgentResult) \<times> request list" where
  "research_agent provider cfg topic audience tone keywords sent =
     (case call_llm provider
             [(lit ''system'', research_system),
              (lit ''user'', research_user topic audience tone keywords)]
             (api_key cfg) (model cfg) (4 / 10) (max_tokens cfg) sent of
        (Inl e, sent') \<Rightarrow> (Inl e, sent')
      | (Inr out, sent') \<Rightarrow> (Inr \<lparr>role = lit ''Research Agent'', output = out\<rparr>, sent'))"

subsection \<open>\<open>outline_agent\<close>\<close>

definition outline_system :: pystr where
  "outline_system = lit ''You are a senior content strategist. Create a logical, SEO-friendly outline for a long-form blog post.''"

definition outline_user ::
  "pystr \<Rightarrow> pystr \<Rightarrow> pystr \<Rightarrow> pystr list \<Rightarrow> pystr option \<Rightarrow> int \<Rightarrow> pystr" where
  "outline_user topic audience tone keywords research word_target =
     nl @ lit ''Create an outline for a blog post on: '' @ dq @ topic @ dq @ lit ''.'' @
     nl @ lit ''Audience: '' @ audience @
     nl @ lit ''Tone: '' @ tone @
     nl @ lit ''Target keywords: '' @ keywords_field keywords @
     nl @ lit ''Word target: ~'' @ str_int word_target @ lit '' words.'' @
     nl @
     nl @ lit ''Use the research below to inform structure (do not repeat it verbatim):'' @
     nl @ lit ''---'' @
     nl @ fmt research @
     nl @ lit ''---'' @
     nl @
     nl @ lit ''Return:'' @
     nl @ lit ''- Title ideas (3)'' @
     nl @ lit ''- H1'' @
     nl @ lit ''- H2/H3 outline with approximate word counts'' @
     nl @ lit ''- Notes on where to include stats, examples, or visuals'' @
     nl @ lit ''- Suggested internal/external links placement'' @
     nl"

definition outline_agent ::
  "provider \<Rightarrow> settings \<Rightarrow> pystr \<Rightarrow> pystr \<Rightarrow> pystr \<Rightarrow> pystr list \<Rightarrow> pystr option \<Rightarrow> int
     \<Rightarrow> request list \<Rightarrow> (exn + AgentResult) \<times> request list" where
  "outline_agent provider cfg topic audience tone keywords research word_target sent =
     (case call_llm provider
             [(lit ''system'', outline_system),
              (lit ''user'', outline_user topic audience tone keywords research word_target)]
             (api_key cfg) (model cfg) (5 / 10) (max_tokens cfg) sent of
        (Inl e, sent') \<Rightarrow> (Inl e, sent')
      | (Inr out, sent') \<Rightarrow> (Inr \<lparr>role = lit ''Outline Agent'', output = out\<rparr>, sent'))"

subsection \<open>\<open>writing_agent\<close>\<close>

definition writing_system :: pystr where
  "writing_system = lit ''You are a staff content writer. Produce clear, engaging, well-structured markdown content following the outline. Cite sources inline when appropriate.''"

definition writing_user ::
  "pystr \<Rightarrow> pystr \<Rightarrow> pystr \<Rightarrow> pystr option \<Rightarrow> pystr option \<Rightarrow> pystr" where
  "writing_user topic audience tone outline research =
     nl @ lit ''Write the full draft in **markdown** for the topic '' @ dq @ topic @ dq @ lit ''.'' @
     nl @ lit ''Audience: '' @ audience @
     nl @ lit ''Tone: '' @ tone @
     nl @
     nl @ lit ''Follow this outline strictly:'' @
     nl @ lit ''---'' @
     nl @ fmt outline @
     nl @ lit ''---'' @
     nl @
     nl @ lit ''Incorporate relevant points from this research when helpful:'' @
     nl @ lit ''---'' @
     nl @ fmt research @
     nl @ lit ''---'' @
     nl @
     nl @ lit ''Guidelines:'' @
     nl @ lit ''- Use headings (#, ##, ###), short paragraphs, and occasional bullet lists.'' @
     nl @ lit ''- Add a table of contents placeholder.'' @
     nl @ lit ''- Keep claims grounded; when referencing a stat or specific figure, attribute it (e.g., '' @
          dq @ lit ''(Source: Organization, Year)'' @ dq @ lit '').'' @
     nl @ lit ''- Avoid fabricating links; reference source names even if link unknown.'' @
     nl"

definition writing_agent ::
  "provider \<Rightarrow> settings \<Rightarrow> pystr \<Rightarrow> pystr \<Rightarrow> pystr \<Rightarrow> pystr option \<Rightarrow> pystr option
     \<Rightarrow> request list \<Rightarrow> (exn + AgentResult) \<times> request list" where
  "writing_agent provider cfg topic audience tone outline research sent =
     (case call_llm provider
             [(lit ''system'', writing_system),
              (lit ''user'', writing_user topic audience tone outline research)]
             (api_key cfg) (model cfg) (8 / 10) (max_tokens cfg) sent of
        (Inl e, sent') \<Rightarrow> (Inl e, sent')
      | (Inr out, sent') \<Rightarrow> (Inr \<lparr>role = lit ''Writing Agent'', output = out\<rparr>, sent'))"

subsection \<open>\<open>editing_agent\<close>\<close>

definition editing_system :: pystr where
  "editing_system = lit ''You are a seasoned editor focused on clarity, flow, and correctness. Keep the author'' @ [39] @ lit ''s voice while tightening.''"

text \<open>The parameter \<open>audience\<close> is in the signature; the f-string does not use it.\<close>

definition editing_user :: "pystr option \<Rightarrow> pystr \<Rightarrow> pystr \<Rightarrow> pystr" where
  "editing_user draft_md audience tone =
     nl @ lit ''Edit the following markdown draft for clarity, flow, correctness, and concision. Maintain the intended tone: '' @
          tone @ lit ''. Preserve markdown structure.'' @
     nl @
     nl @ lit ''---'' @
     nl @ fmt draft_md @
     nl @ lit ''---'' @
     nl @
     nl @ lit ''Return the revised **markdown** in full.'' @
     nl"

definition editing_agent ::
  "provider \<Rightarrow> settings \<Rightarrow> pystr option \<Rightarrow> pystr \<Rightarrow> pystr
     \<Rightarrow> request list \<Rightarrow> (exn + AgentResult) \<times> request list" where
  "editing_agent provider cfg draft_md audience tone sent =
     (case call_llm provider
             [(lit ''system'', editing_system),
              (lit ''user'', editing_user draft_md audience tone)]
             (api_key cfg) (model cfg) (3 / 10) (max_tokens cfg) sent of
        (Inl e, sent') \<Rightarrow> (Inl e, sent')
      | (Inr out, sent') \<Rightarrow> (Inr \<lparr>role = lit ''Editing Agent'', output = out\<rparr>, sent'))"

subsection \<open>\<open>seo_agent\<close>\<close>

definition seo_system :: pystr where
  "seo_system = lit ''You are an SEO specialist. You craft metadata and on-page recommendations.''"

text \<open>
  The parameters \<open>topic\<close>, \<open>audience\<close> and \<open>keywords\<close> are in the signature; the f-string
  uses \<open>draft_md\<close> only. Code point 8804 is the sign for "at most" of the source's text.
\<close>

definition seo_user :: "pystr \<Rightarrow> pystr \<Rightarrow> pystr list \<Rightarrow> pystr option \<Rightarrow> pystr" where
  "seo_user topic audience keywords draft_md =
     nl @ lit ''Based on the markdown draft below, produce:'' @
     nl @ lit ''- Final SEO title ('' @ [8804] @ lit '' 60 chars if possible)'' @
     nl @ lit ''- Meta description ('' @ [8804] @ lit '' 155 chars)'' @
     nl @ lit ''- URL slug'' @
     nl @ lit ''- Primary keyword + 4-8 secondary keywords'' @
     nl @ lit ''- 5-7 FAQs (Q&A pairs) to append as an FAQ section'' @
     nl @ lit ''- Recommended internal link anchors (generic) and external link types'' @
     nl @
     nl @ lit ''Draft:'' @
     nl @ lit ''---'' @
     nl @ fmt draft_md @
     nl @ lit ''---'' @
     nl"

definition seo_agent ::
  "provider \<Rightarrow> settings \<Rightarrow> pystr \<Rightarrow> pystr \<Rightarrow> pystr list \<Rightarrow> pystr option
     \<Rightarrow> request list \<Rightarrow> (exn + AgentResult) \<times> request list" where
  "seo_agent provider cfg topic audience keywords draft_md sent =
     (case call_llm provider
             [(lit ''system'', seo_system),
              (lit ''user'', seo_user topic audience keywords draft_md)]
             (api_key cfg) (model cfg) (5 / 10) (max_tokens cfg) sent of
        (Inl e, sent') \<Rightarrow> (Inl e, sent')
      | (Inr out, sent') \<Rightarrow> (Inr \<lparr>role = lit ''SEO Agent'', output = out\<rparr>, sent'))"

subsection \<open>\<open>finalizer_agent\<close>\<close>

definition finalizer_system :: pystr where
  "finalizer_system = lit ''You are a content packager. You assemble final deliverables.''"

definition finalizer_user :: "pystr option \<Rightarrow> pystr option \<Rightarrow> pystr" where
  "finalizer_user draft_md seo =
     nl @ lit ''Combine the edited markdown with the SEO pack. Append an **FAQ** section if provided by SEO. Ensure a clean Table of Contents placeholder after the H1. Return final markdown only.'' @
     nl @
     nl @ lit ''Edited Draft:'' @
     nl @ lit ''---'' @
     nl @ fmt draft_md @
     nl @ lit ''---'' @
     nl @
     nl @ lit ''SEO Pack:'' @
     nl @ lit ''---'' @
     nl @ fmt seo @
     nl @ lit ''---'' @
     nl"

definition finalizer_agent ::
  "provider \<Rightarrow> settings \<Rightarrow> pystr option \<Rightarrow> pystr option
     \<Rightarrow> request list \<Rightarrow> (exn + AgentResult) \<times> request list" where
  "finalizer_agent provider cfg draft_md seo sent =
     (case call_llm provider
             [(lit ''system'', finalizer_system),
              (lit ''user'', finalizer_user draft_md seo)]
             (api_key cfg) (model cfg) (2 / 10) (max_tokens cfg) sent of
        (Inl e, sent') \<Rightarrow> (Inl e, sent')
      | (Inr out, sent') \<Rightarrow> (Inr \<lparr>role = lit ''Finalizer'', output = out\<rparr>, sent'))"

section \<open>The form and the orchestration\<close>

datatype tone = Professional | Casual | Educational | Persuasive | Playful

fun tone_str :: "tone \<Rightarrow> pystr" where
  "tone_str Professional = lit ''Professional''"
| "tone_str Casual = lit ''Casual''"
| "tone_str Educational = lit ''Educational''"
| "tone_str Persuasive = lit ''Persuasive''"
| "tone_str Playful = lit ''Playful''"

text \<open>The widgets of the main page: what the script reads on a run.\<close>

record form =
  topic :: pystr
  audience :: pystr
  tone :: tone
  word_target :: int
  "keywords" :: pystr
  run_button :: bool

text \<open>
  \<open>[k.strip() for k in keywords.split(",") if k.strip()] if keywords else []\<close>;
  the comma is code point 44.
\<close>

definition kw_list :: "pystr \<Rightarrow> pystr list" where
  "kw_list raw = (if raw \<noteq> [] then [strip k. k \<leftarrow> split 44 raw, strip k \<noteq> []] else [])"

text \<open>
  What the script writes on the page, in order: each Streamlit call is recorded as an
  event and is taken to return; what Streamlit does with it is outside the script. An expander holds the
  \<open>st.markdown\<close> of an agent's output, which may be \<open>None\<close>. The download button holds
  the document whose UTF-8 encoding is its data. The spinners are gone when their block
  ends and are left out, and so is the file name of the download button.
\<close>

datatype ui_event =
    StError pystr
  | StExpander pystr bool "pystr option"
  | StSuccess pystr
  | StDownloadButton pystr pystr
  | StMarkdown "pystr option"

text \<open>
  How a run of the script ends: the button was not pressed; \<open>st.stop()\<close> after an
  \<open>st.error\<close>; an exception nobody catches, with the function whose call raised it (the
  innermost frame of the script in the traceback); or the end of the script.
\<close>

datatype frame =
    Research_agent | Outline_agent | Writing_agent | Editing_agent | Seo_agent
  | Finalizer_agent | Module

datatype outcome = NotRun | Stopped | Raised frame exn | Completed

text \<open>
  The state of a run when it ends: \<open>results\<close> are the values of the script's variables
  \<open>r\<close>, \<open>o\<close> (written \<open>o'\<close> below), \<open>w\<close>, \<open>e\<close>, \<open>s\<close> bound so far, in the order of
  their binding; \<open>final\<close> is \<open>f\<close>; \<open>calls\<close> is the log of requests sent to the provider;
  \<open>page\<close> is what was displayed.
\<close>

record session =
  outcome :: outcome
  results :: "AgentResult list"
  final :: "AgentResult option"
  calls :: "request list"
  page :: "ui_event list"

text \<open>
  \<open>if show_steps: with st.expander(label, expanded=...): st.markdown(x.output)\<close>
\<close>

definition show_step :: "settings \<Rightarrow> pystr \<Rightarrow> bool \<Rightarrow> AgentResult \<Rightarrow> ui_event list" where
  "show_step cfg label expanded x =
     (if show_steps cfg then [StExpander label expanded (output x)] else [])"

text \<open>
  The block under \<open>if run_button:\<close>. The OpenAI SDK is taken to be installed (the guard
  at the top of the script stops every run otherwise). After the success message,
  \<open>f.output.encode("utf-8")\<close> raises \<open>AttributeError\<close> when \<open>f.output\<close> is \<open>None\<close> and
  \<open>UnicodeEncodeError\<close> when it holds a surrogate.
\<close>

definition run :: "provider \<Rightarrow> settings \<Rightarrow> form \<Rightarrow> session" where
  "run provider cfg frm =
    (if \<not> run_button frm then
       \<lparr>outcome = NotRun, results = [], final = None, calls = [], page = []\<rparr>
     else if api_key cfg = [] then
       \<lparr>outcome = Stopped, results = [], final = None, calls = [],
        page = [StError (lit ''Please provide an OpenAI API key in the sidebar.'')]\<rparr>
     else if topic frm = [] \<or> audience frm = [] then
       \<lparr>outcome = Stopped, results = [], final = None, calls = [],
        page = [StError (lit ''Please fill in both Topic and Audience.'')]\<rparr>
     else
      let kws = kw_list (keywords frm) in
      case research_agent provider cfg (topic frm) (audience frm) (tone_str (tone frm)) kws [] of
        (Inl x, c1) \<Rightarrow>
          \<lparr>outcome = Raised Research_agent x, results = [], final = None, calls = c1, page = []\<rparr>
      | (Inr r, c1) \<Rightarrow>
      let p1 = show_step cfg (128270 # lit '' Research Agent Output'') True r in
      case outline_agent provider cfg (topic frm) (audience frm) (tone_str (tone frm)) kws
             (output r) (word_target frm) c1 of
        (Inl x, c2) \<Rightarrow>
          \<lparr>outcome = Raised Outline_agent x, results = [r], final = None, calls = c2, page = p1\<rparr>
      | (Inr o', c2) \<Rightarrow>
      let p2 = p1 @ show_step cfg (129517 # lit '' Outline Agent Output'') False o' in
      case writing_agent provider cfg (topic frm) (audience frm) (tone_str (tone frm))
             (output o') (output r) c2 of
        (Inl x, c3) \<Rightarrow>
          \<lparr>outcome = Raised Writing_agent x, results = [r, o'], final = None, calls = c3,
           page = p2\<rparr>
      | (Inr w, c3) \<Rightarrow>
      let p3 = p2 @ show_step cfg (9997 # 65039 # lit '' Writing Agent Output'') False w in
      case editing_agent provider cfg (output w) (audience frm) (tone_str (tone frm)) c3 of
        (Inl x, c4) \<Rightarrow>
          \<lparr>outcome = Raised Editing_agent x, results = [r, o', w], final = None, calls = c4,
           page = p3\<rparr>
      | (Inr e, c4) \<Rightarrow>
      let p4 = p3 @ show_step cfg (129529 # lit '' Editing Agent Output'') False e in
      case seo_agent provider cfg (topic frm) (audience frm) kws (output e) c4 of
        (Inl x, c5) \<Rightarrow>
          \<lparr>outcome = Raised Seo_agent x, results = [r, o', w, e], final = None, calls = c5,
           page = p4\<rparr>
      | (Inr s, c5) \<Rightarrow>
      let p5 = p4 @ show_step cfg (128269 # lit '' SEO Agent Output'') False s in
      case finalizer_agent provider cfg (output e) (output s) c5 of
        (Inl x, c6) \<Rightarrow>
          \<lparr>outcome = Raised Finalizer_agent x, results = [r, o', w, e, s], final = None,
           calls = c6, page = p5\<rparr>
      | (Inr f, c6) \<Rightarrow>
      let p6 = p5 @ [StSuccess (9989 # lit '' Blog post generated!'')] in
      case output f of
        None \<Rightarrow>
          \<lparr>outcome = Raised Module AttributeError, results = [r, o', w, e, s], final = Some f,
           calls = c6, page = p6\<rparr>
      | Some doc \<Rightarrow>
          if \<not> utf8_encodable doc then
            \<lparr>outcome = Raised Module UnicodeEncodeError, results = [r, o', w, e, s],
             final = Some f, calls = c6, page = p6\<rparr>
          else
            \<lparr>outcome = Completed, results = [r, o', w, e, s], final = Some f, calls = c6,
             page = p6 @ [StDownloadButton (128229 # lit '' Download Markdown'') doc,
                          StMarkdown (Some (lit ''### '' @ 129534 # lit '' Final Output'')),
                          StMarkdown (Some doc)]\<rparr>)"

section \<open>Notions used in the statements\<close>

text \<open>
  The key of the client that \<open>call_llm\<close> builds under the settings: the API key of the
  sidebar, or the key of the environment when that one is empty; \<open>None\<close> when the
  constructor raises.
\<close>

definition client_key :: "provider \<Rightarrow> settings \<Rightarrow> pystr option" where
  "client_key provider cfg =
     (if api_key cfg \<noteq> [] then Some (api_key cfg) else environ_key provider)"

text \<open>
  The request an agent makes through a client with key \<open>k\<close>, built from the settings,
  its two messages and its temperature.
\<close>

definition request_of :: "pystr \<Rightarrow> settings \<Rightarrow> pystr \<Rightarrow> pystr \<Rightarrow> real \<Rightarrow> request" where
  "request_of k cfg system user temp =
     \<lparr>rq_api_key = Some k,
      rq_model = model cfg,
      rq_messages = [(lit ''system'', system), (lit ''user'', user)],
      rq_temperature = temp,
      rq_max_tokens = max_tokens cfg\<rparr>"

text \<open>What \<open>call_llm\<close> makes of the answer to request number \<open>n\<close>.\<close>

definition reply :: "provider \<Rightarrow> nat \<Rightarrow> request \<Rightarrow> exn + pystr option" where
  "reply provider n rq =
     (case answer provider n rq of
        Raises m \<Rightarrow> Inl (ProviderException m)
      | Response [] \<Rightarrow> Inl IndexError
      | Response (c # _) \<Rightarrow> Inr c)"


text \<open>A deterministic provider answers a request the same way at every call.\<close>

definition deterministic :: "provider \<Rightarrow> bool" where
  "deterministic provider \<longleftrightarrow> (\<forall>n n' rq. answer provider n rq = answer provider n' rq)"

text \<open>
  Stub providers, without a key in the environment: one answer for every call; one
  failure at call number \<open>k\<close>.
\<close>

definition const_stub :: "response \<Rightarrow> provider" where
  "const_stub resp = \<lparr>environ_key = None, answer = (\<lambda>n rq. resp)\<rparr>"


text \<open>The settings and the form of the examples.\<close>

definition cfg0 :: settings where
  "cfg0 = \<lparr>api_key = lit ''sk-test'', model = lit ''gpt-4o-mini'', temperature = 7 / 10,
           max_tokens = 1200, show_steps = True\<rparr>"

definition frm0 :: form where
  "frm0 = \<lparr>topic = lit ''Remote Work Productivity'', audience = lit ''HR managers'',
           tone = Professional, word_target = 1200, keywords = [], run_button = True\<rparr>"

text \<open>A conversation and the request \<open>call_llm\<close> builds from it, for the examples.\<close>

definition msgs0 :: "message list" where
  "msgs0 = [(lit ''system'', lit ''s''), (lit ''user'', lit ''u'')]"

definition rq0 :: request where
  "rq0 = \<lparr>rq_api_key = Some (lit ''sk-test''), rq_model = lit ''gpt-4o-mini'',
          rq_messages = msgs0, rq_temperature = 4 / 10, rq_max_tokens = 1200\<rparr>"

section \<open>Lemmas\<close>

lemma sublist_skip: "sublist xs ys \<Longrightarrow> sublist xs (zs @ ys)"
  by (metis sublist_append)

lemma sublist_here: "sublist xs (xs @ ys)"
  by simp

lemma lit_eq_Nil [simp]: "lit s = [] \<longleftrightarrow> s = []"
  by (simp add: lit_def)

lemma client_key_api [simp]: "api_key cfg \<noteq> [] \<Longrightarrow> client_key provider cfg = Some (api_key cfg)"
  by (simp add: client_key_def)

lemma call_llm_reply:
  "call_llm provider [(lit ''system'', sy), (lit ''user'', us)] (api_key cfg) (model cfg) tp
     (max_tokens cfg) sent =
   (case client_key provider cfg of
      None \<Rightarrow> (Inl OpenAIError, sent)
    | Some k \<Rightarrow> (reply provider (length sent) (request_of k cfg sy us tp),
                 sent @ [request_of k cfg sy us tp]))"
  by (simp add: call_llm_def client_key_def reply_def request_of_def Let_def
        split: option.splits)

lemma research_agent_reply:
  "research_agent provider cfg t a tn kws sent =
     (case client_key provider cfg of
        None \<Rightarrow> (Inl OpenAIError, sent)
      | Some k \<Rightarrow>
          (case reply provider (length sent)
                  (request_of k cfg research_system (research_user t a tn kws) (4 / 10)) of
             Inl e \<Rightarrow> Inl e
           | Inr out \<Rightarrow> Inr \<lparr>role = lit ''Research Agent'', output = out\<rparr>,
           sent @ [request_of k cfg research_system (research_user t a tn kws) (4 / 10)]))"
  unfolding research_agent_def call_llm_reply by (simp split: sum.splits option.splits)

lemma outline_agent_reply:
  "outline_agent provider cfg t a tn kws research wt sent =
     (case client_key provider cfg of
        None \<Rightarrow> (Inl OpenAIError, sent)
      | Some k \<Rightarrow>
          (case reply provider (length sent)
                  (request_of k cfg outline_system (outline_user t a tn kws research wt) (5 / 10)) of
             Inl e \<Rightarrow> Inl e
           | Inr out \<Rightarrow> Inr \<lparr>role = lit ''Outline Agent'', output = out\<rparr>,
           sent @ [request_of k cfg outline_system (outline_user t a tn kws research wt) (5 / 10)]))"
  unfolding outline_agent_def call_llm_reply by (simp split: sum.splits option.splits)

lemma writing_agent_reply:
  "writing_agent provider cfg t a tn ol research sent =
     (case client_key provider cfg of
        None \<Rightarrow> (Inl OpenAIError, sent)
      | Some k \<Rightarrow>
          (case reply provider (length sent)
                  (request_of k cfg writing_system (writing_user t a tn ol research) (8 / 10)) of
             Inl e \<Rightarrow> Inl e
           | Inr out \<Rightarrow> Inr \<lparr>role = lit ''Writing Agent'', output = out\<rparr>,
           sent @ [request_of k cfg writing_system (writing_user t a tn ol research) (8 / 10)]))"
  unfolding writing_agent_def call_llm_reply by (simp split: sum.splits option.splits)

lemma editing_agent_reply:
  "editing_agent provider cfg d a tn sent =
     (case client_key provider cfg of
        None \<Rightarrow> (Inl OpenAIError, sent)
      | Some k \<Rightarrow>
          (case reply provider (length sent)
                  (request_of k cfg editing_system (editing_user d a tn) (3 / 10)) of
             Inl e \<Rightarrow> Inl e
           | Inr out \<Rightarrow> Inr \<lparr>role = lit ''Editing Agent'', output = out\<rparr>,
           sent @ [request_of k cfg editing_system (editing_user d a tn) (3 / 10)]))"
  unfolding editing_agent_def call_llm_reply by (simp split: sum.splits option.splits)

lemma seo_agent_reply:
  "seo_agent provider cfg t a kws d sent =
     (case client_key provider cfg of
        None \<Rightarrow> (Inl OpenAIError, sent)
      | Some k \<Rightarrow>
          (case reply provider (length sent)
                  (request_of k cfg seo_system (seo_user t a kws d) (5 / 10)) of
             Inl e \<Rightarrow> Inl e
           | Inr out \<Rightarrow> Inr \<lparr>role = lit ''SEO Agent'', output = out\<rparr>,
           sent @ [request_of k cfg seo_system (seo_user t a kws d) (5 / 10)]))"
  unfolding seo_agent_def call_llm_reply by (simp split: sum.splits option.splits)

lemma finalizer_agent_reply:
  "finalizer_agent provider cfg d s sent =
     (case client_key provider cfg of
        None \<Rightarrow> (Inl OpenAIError, sent)
      | Some k \<Rightarrow>
          (case reply provider (length sent)
                  (request_of k cfg finalizer_system (finalizer_user d s) (2 / 10)) of
             Inl e \<Rightarrow> Inl e
           | Inr out \<Rightarrow> Inr \<lparr>role = lit ''Finalizer'', output = out\<rparr>,
           sent @ [request_of k cfg finalizer_system (finalizer_user d s) (2 / 10)]))"
  unfolding finalizer_agent_def call_llm_reply by (simp split: sum.splits option.splits)

lemmas agent_reply =
  research_agent_reply outline_agent_reply writing_agent_reply editing_agent_reply
  seo_agent_reply finalizer_agent_reply

lemma sublist_here2: "sublist (xs @ ys) (xs @ ys @ zs)"
  by (metis append_assoc sublist_here)

lemma marker_split: "lit ''Target keywords: N/A'' = lit ''Target keywords: '' @ lit ''N/A''"
  by (simp add: lit_def)

lemma research_user_marker: "sublist (lit ''Target keywords: N/A'') (research_user t a tn [])"
  unfolding research_user_def keywords_field_def marker_split
  by (simp only: if_False not_True_eq_False simp_thms) ((rule sublist_here2 | rule sublist_skip)+)

lemma outline_user_marker: "sublist (lit ''Target keywords: N/A'') (outline_user t a tn [] r wt)"
  unfolding outline_user_def keywords_field_def marker_split
  by (simp only: if_False not_True_eq_False simp_thms) ((rule sublist_here2 | rule sublist_skip)+)

text \<open>
  A string that holds a character which a text lacks is not a part of the text: the
  solidus (47) is in no SEO prompt for a draft without one, and the capital H (72) in no
  editing conversation for a draft and a tone without one.
\<close>

lemma seo_no_slash:
  "47 \<notin> set (seo_user (lit ''Remote Work Productivity'') (lit ''HR managers'') []
                (Some (lit ''# Draft'')))"
  by (simp add: seo_user_def lit_def nl_def)

lemma edit_no_H:
  "72 \<notin> set (editing_user (Some (lit ''# Draft'')) (lit ''HR managers'') (lit ''Professional''))"
  "72 \<notin> set editing_system"
  by (simp_all add: editing_user_def editing_system_def lit_def nl_def)

text \<open>Stripping and splitting.\<close>

lemma lstrip_hd: "lstrip s \<noteq> [] \<Longrightarrow> \<not> is_space (hd (lstrip s))"
  unfolding lstrip_def by (rule hd_dropWhile)

lemma rstrip_last: "rstrip s \<noteq> [] \<Longrightarrow> \<not> is_space (last (rstrip s))"
  unfolding rstrip_def using hd_dropWhile [of is_space "rev s"] by (simp add: last_rev)

lemma rstrip_prefix: "prefix (rstrip s) s"
proof -
  have "suffix (dropWhile is_space (rev s)) (rev s)"
    by (rule suffix_dropWhile)
  then show ?thesis by (simp add: rstrip_def suffix_to_prefix)
qed

lemma rstrip_hd: "rstrip s \<noteq> [] \<Longrightarrow> hd (rstrip s) = hd s"
  by (metis hd_append2 prefix_def rstrip_prefix)

lemma strip_clean:
  assumes "strip s \<noteq> []"
  shows "\<not> is_space (hd (strip s))" and "\<not> is_space (last (strip s))"
proof -
  from assms have ne: "rstrip (lstrip s) \<noteq> []" by (simp add: strip_def)
  then have "lstrip s \<noteq> []" by (auto simp: rstrip_def)
  then have "\<not> is_space (hd (lstrip s))" by (rule lstrip_hd)
  with ne show "\<not> is_space (hd (strip s))" by (simp add: strip_def rstrip_hd)
  from ne show "\<not> is_space (last (strip s))" unfolding strip_def by (rule rstrip_last)
qed

lemma strip_all_space:
  assumes "\<forall>c \<in> set s. is_space c"
  shows "strip s = []"
proof -
  from assms have "lstrip s = []"
    by (simp add: lstrip_def dropWhile_eq_Nil_conv)
  then show ?thesis by (simp add: strip_def rstrip_def)
qed

lemma split_pieces: "p \<in> set (split sep s) \<Longrightarrow> set p \<subseteq> set s - {sep}"
proof (induction s arbitrary: p)
  case Nil
  then show ?case by simp
next
  case (Cons c cs)
  show ?case
  proof (cases "c = sep")
    case True
    with Cons.prems have "p = [] \<or> p \<in> set (split sep cs)" by simp
    then show ?thesis using Cons.IH [of p] by auto
  next
    case False
    show ?thesis
    proof (cases "split sep cs")
      case Nil
      with False Cons.prems show ?thesis by simp
    next
      case (Cons q qs)
      with False Cons.prems have "p = c # q \<or> p \<in> set qs" by simp
      moreover have "set q \<subseteq> set cs - {sep}"
        using Cons.IH [of q] Cons by simp
      moreover have "p \<in> set qs \<Longrightarrow> set p \<subseteq> set cs - {sep}"
        using Cons.IH [of p] Cons by simp
      ultimately show ?thesis using False by auto
    qed
  qed
qed

lemma kw_ex1: "kw_list (lit '' remote work , ,hr'') = [lit ''remote work'', lit ''hr'']"
  by (simp add: kw_list_def lit_def strip_def lstrip_def rstrip_def is_space_def)




lemma agent_temperature:
  "research_agent provider (cfg\<lparr>temperature := x\<rparr>) = research_agent provider cfg"
  "outline_agent provider (cfg\<lparr>temperature := x\<rparr>) = outline_agent provider cfg"
  "writing_agent provider (cfg\<lparr>temperature := x\<rparr>) = writing_agent provider cfg"
  "editing_agent provider (cfg\<lparr>temperature := x\<rparr>) = editing_agent provider cfg"
  "seo_agent provider (cfg\<lparr>temperature := x\<rparr>) = seo_agent provider cfg"
  "finalizer_agent provider (cfg\<lparr>temperature := x\<rparr>) = finalizer_agent provider cfg"
  by (simp_all add: fun_eq_iff research_agent_def outline_agent_def writing_agent_def
        editing_agent_def seo_agent_def finalizer_agent_def)

lemma show_step_temperature: "show_step (cfg\<lparr>temperature := x\<rparr>) = show_step cfg"
  by (simp add: show_step_def fun_eq_iff)

lemma run_calls_shape:
  "map rq_temperature (calls (run provider cfg frm)) =
     take (length (calls (run provider cfg frm))) [4 / 10, 5 / 10, 8 / 10, 3 / 10, 5 / 10, 2 / 10] \<and>
   (\<forall>q \<in> set (calls (run provider cfg frm)).
      rq_api_key q = Some (api_key cfg) \<and> rq_model q = model cfg \<and>
      rq_max_tokens q = max_tokens cfg)"
proof -
  define Q where "Q qs \<longleftrightarrow>
     map rq_temperature qs = take (length qs) [4 / 10, 5 / 10, 8 / 10, 3 / 10, 5 / 10, 2 / 10] \<and>
     (\<forall>q \<in> set qs. rq_api_key q = Some (api_key cfg) \<and> rq_model q = model cfg \<and>
        rq_max_tokens q = max_tokens cfg)" for qs :: "request list"
  have "Q (calls (run provider cfg frm))"
    apply (simp add: run_def agent_reply Let_def split: sum.splits option.splits)
    apply (simp add: Q_def request_of_def)
    done
  then show ?thesis unfolding Q_def .
qed

lemma run_first_call:
  "run_button frm \<Longrightarrow> api_key cfg \<noteq> [] \<Longrightarrow> topic frm \<noteq> [] \<Longrightarrow> audience frm \<noteq> [] \<Longrightarrow>
     hd (calls (run provider cfg frm)) =
       request_of (api_key cfg) cfg research_system
         (research_user (topic frm) (audience frm) (tone_str (tone frm)) (kw_list (keywords frm)))
         (4 / 10)
     \<and> calls (run provider cfg frm) \<noteq> []"
proof -
  define Q where "Q qs \<longleftrightarrow> hd qs = request_of (api_key cfg) cfg research_system
         (research_user (topic frm) (audience frm) (tone_str (tone frm)) (kw_list (keywords frm)))
         (4 / 10) \<and> qs \<noteq> []" for qs :: "request list"
  assume "run_button frm" "api_key cfg \<noteq> []" "topic frm \<noteq> []" "audience frm \<noteq> []"
  then have "Q (calls (run provider cfg frm))"
    apply (simp add: run_def agent_reply Let_def split: sum.splits option.splits)
    apply (simp add: Q_def)
    done
  then show ?thesis by (simp add: Q_def)
qed




section \<open>The claims\<close>




text \<open>
  C2. When the button is pressed and the API key, the topic or the audience is empty,
  the run stops after one error message: no request reaches the provider, no agent
  result and no final document exist.
\<close>

theorem validation_stops_before_any_call:
  "run_button frm \<Longrightarrow> api_key cfg = [] \<or> topic frm = [] \<or> audience frm = [] \<Longrightarrow>
     outcome (run provider cfg frm) = Stopped \<and>
     calls (run provider cfg frm) = [] \<and>
     results (run provider cfg frm) = [] \<and>
     final (run provider cfg frm) = None \<and>
     (\<exists>msg. page (run provider cfg frm) = [StError msg])"
  by (auto simp: run_def)

theorem validation_stops_before_any_call_witness:
  "run_button (frm0\<lparr>topic := []\<rparr>) \<and> topic (frm0\<lparr>topic := []\<rparr>) = [] \<and>
   outcome (run (const_stub (Response [Some (lit ''text'')])) cfg0 (frm0\<lparr>topic := []\<rparr>)) = Stopped \<and>
   calls (run (const_stub (Response [Some (lit ''text'')])) cfg0 (frm0\<lparr>topic := []\<rparr>)) = []"
  using validation_stops_before_any_call
          [of "frm0\<lparr>topic := []\<rparr>" cfg0 "const_stub (Response [Some (lit ''text'')])"]
  by (simp add: frm0_def)



text \<open>
  C4. The prompt that \<open>outline_agent\<close> builds contains the topic, the audience and the
  text of the research output, each as it was given, and it is the user message of the
  request \<open>outline_agent\<close> makes (one request, unless no client can be built for want
  of a key).
\<close>

theorem outline_prompt_carries_inputs:
  "\<exists>q u. snd (outline_agent provider cfg t a tn kws (Some research) wt sent) =
             sent @ (if client_key provider cfg = None then [] else [q])
      \<and> rq_messages q = [(lit ''system'', outline_system), (lit ''user'', u)]
      \<and> u = outline_user t a tn kws (Some research) wt
      \<and> sublist t u \<and> sublist a u \<and> sublist research u"
proof -
  let ?u = "outline_user t a tn kws (Some research) wt"
  let ?q = "request_of (case client_key provider cfg of None \<Rightarrow> [] | Some k \<Rightarrow> k) cfg
              outline_system ?u (5 / 10)"
  have "sublist t ?u" "sublist a ?u" "sublist research ?u"
    unfolding outline_user_def fmt.simps by (rule sublist_here | rule sublist_skip)+
  then show ?thesis
    apply (intro exI [of _ ?q] exI [of _ ?u])
    apply (simp add: outline_agent_reply request_of_def split: option.splits)
    done
qed

text \<open>
  C5. With an empty keyword list, the prompts of \<open>research_agent\<close> and \<open>outline_agent\<close>
  hold the field \<open>Target keywords: N/A\<close>. The prompt of \<open>seo_agent\<close> is the same for
  every keyword list, the empty one included: it has no keywords field, and for the topic
  "Remote Work Productivity", the audience "HR managers", no keywords and the draft
  "# Draft" it does not contain the marker \<open>N/A\<close>.
\<close>

theorem seo_prompt_lacks_keywords_marker:
  "seo_user t a kws d = seo_user t a [] d
   \<and> \<not> sublist (lit ''N/A'')
         (seo_user (lit ''Remote Work Productivity'') (lit ''HR managers'') []
            (Some (lit ''# Draft'')))
   \<and> sublist (lit ''Target keywords: N/A'') (research_user t a tn [])
   \<and> sublist (lit ''Target keywords: N/A'') (outline_user t a tn [] r wt)"
proof -
  have "47 \<in> set (lit ''N/A'')" by (simp add: lit_def)
  with seo_no_slash have "\<not> sublist (lit ''N/A'')
         (seo_user (lit ''Remote Work Productivity'') (lit ''HR managers'') []
            (Some (lit ''# Draft'')))"
    using set_mono_sublist by blast
  moreover have "seo_user t a kws d = seo_user t a [] d"
    by (simp add: seo_user_def)
  ultimately show ?thesis
    using research_user_marker outline_user_marker by blast
qed

text \<open>
  C6, as stated, fails: when the provider answers with an empty text, or with no text
  at all, \<open>call_llm\<close> returns it as its result and raises nothing.
\<close>

theorem call_llm_returns_empty_text_counterexample:
  "fst (call_llm (const_stub (Response [Some []])) msgs0 (lit ''sk-test'') (lit ''gpt-4o-mini'')
          (4 / 10) 1200 []) = Inr (Some [])
   \<and> fst (call_llm (const_stub (Response [None])) msgs0 (lit ''sk-test'') (lit ''gpt-4o-mini'')
          (4 / 10) 1200 []) = Inr None"
  by (simp add: call_llm_def const_stub_def Let_def)

text \<open>
  C6, amended. \<open>call_llm\<close> does not look at the answer. It fails when no client can be
  built for want of a key, and when \<open>create\<close> raises: then the exception carries the
  provider's message. When the provider answers, the content of the first choice is
  returned as it is, an empty or absent text included; an answer without any choice
  raises \<open>IndexError\<close>.
\<close>

theorem call_llm_passes_through:
  "(k = [] \<and> environ_key provider = None \<longrightarrow>
      fst (call_llm provider msgs k m tp mt sent) = Inl OpenAIError) \<and>
   (\<forall>key rq.
      (if k \<noteq> [] then Some k else environ_key provider) = Some key \<longrightarrow>
      rq = \<lparr>rq_api_key = Some key, rq_model = m, rq_messages = msgs, rq_temperature = tp,
            rq_max_tokens = mt\<rparr> \<longrightarrow>
        (\<forall>msg. answer provider (length sent) rq = Raises msg \<longrightarrow>
           fst (call_llm provider msgs k m tp mt sent) = Inl (ProviderException msg)) \<and>
        (answer provider (length sent) rq = Response [] \<longrightarrow>
           fst (call_llm provider msgs k m tp mt sent) = Inl IndexError) \<and>
        (\<forall>c cs. answer provider (length sent) rq = Response (c # cs) \<longrightarrow>
           fst (call_llm provider msgs k m tp mt sent) = Inr c))"
  by (auto simp: call_llm_def Let_def)

theorem call_llm_passes_through_witness:
  "environ_key (const_stub (Response [])) = None
   \<and> fst (call_llm (const_stub (Response [])) msgs0 [] (lit ''gpt-4o-mini'') (4 / 10) 1200 [])
       = Inl OpenAIError
   \<and> answer (const_stub (Raises (lit ''401 Unauthorized''))) 0 rq0 = Raises (lit ''401 Unauthorized'')
   \<and> fst (call_llm (const_stub (Raises (lit ''401 Unauthorized''))) msgs0 (lit ''sk-test'')
          (lit ''gpt-4o-mini'') (4 / 10) 1200 []) = Inl (ProviderException (lit ''401 Unauthorized''))
   \<and> answer (const_stub (Response [])) 0 rq0 = Response []
   \<and> fst (call_llm (const_stub (Response [])) msgs0 (lit ''sk-test'')
          (lit ''gpt-4o-mini'') (4 / 10) 1200 []) = Inl IndexError
   \<and> answer (const_stub (Response [Some (lit ''text''), None])) 0 rq0 =
       Response [Some (lit ''text''), None]
   \<and> fst (call_llm (const_stub (Response [Some (lit ''text''), None])) msgs0 (lit ''sk-test'')
          (lit ''gpt-4o-mini'') (4 / 10) 1200 []) = Inr (Some (lit ''text''))"
proof -
  have k: "lit ''sk-test'' \<noteq> []" by simp
  show ?thesis
    using call_llm_passes_through [of "[]" "const_stub (Response [])" msgs0
            "lit ''gpt-4o-mini''" "4 / 10" 1200 "[]"]
          call_llm_passes_through [of "lit ''sk-test''"
            "const_stub (Raises (lit ''401 Unauthorized''))" msgs0
            "lit ''gpt-4o-mini''" "4 / 10" 1200 "[]"]
          call_llm_passes_through [of "lit ''sk-test''" "const_stub (Response [])" msgs0
            "lit ''gpt-4o-mini''" "4 / 10" 1200 "[]"]
          call_llm_passes_through [of "lit ''sk-test''"
            "const_stub (Response [Some (lit ''text''), None])" msgs0
            "lit ''gpt-4o-mini''" "4 / 10" 1200 "[]"]
    by (simp add: k rq0_def const_stub_def)
qed

text \<open>
  C7. Each agent makes its request with a temperature of its own: 0.4 for Research,
  0.5 for Outline, 0.8 for Writing, 0.3 for Editing, 0.5 for SEO (it makes one request,
  unless no client can be built for want of a key). In a run the requests carry these
  temperatures in this order (0.2 for the Finalizer after them), and every request
  carries the API key, the model and the token limit of the settings. The temperature of
  the settings has no effect on the run.
\<close>

theorem stage_temperatures_fixed:
  "map rq_temperature (snd (research_agent provider cfg t a tn kws sent)) =
     map rq_temperature sent @ (if client_key provider cfg = None then [] else [4 / 10]) \<and>
   map rq_temperature (snd (outline_agent provider cfg t a tn kws r wt sent)) =
     map rq_temperature sent @ (if client_key provider cfg = None then [] else [5 / 10]) \<and>
   map rq_temperature (snd (writing_agent provider cfg t a tn ol r sent)) =
     map rq_temperature sent @ (if client_key provider cfg = None then [] else [8 / 10]) \<and>
   map rq_temperature (snd (editing_agent provider cfg d a tn sent)) =
     map rq_temperature sent @ (if client_key provider cfg = None then [] else [3 / 10]) \<and>
   map rq_temperature (snd (seo_agent provider cfg t a kws d sent)) =
     map rq_temperature sent @ (if client_key provider cfg = None then [] else [5 / 10]) \<and>
   map rq_temperature (calls (run provider cfg frm)) =
     take (length (calls (run provider cfg frm))) [4 / 10, 5 / 10, 8 / 10, 3 / 10, 5 / 10, 2 / 10] \<and>
   (\<forall>q \<in> set (calls (run provider cfg frm)).
      rq_api_key q = Some (api_key cfg) \<and> rq_model q = model cfg \<and>
      rq_max_tokens q = max_tokens cfg) \<and>
   run provider (cfg\<lparr>temperature := x\<rparr>) frm = run provider cfg frm"
proof -
  have "run provider (cfg\<lparr>temperature := x\<rparr>) frm = run provider cfg frm"
    unfolding run_def agent_temperature show_step_temperature by simp
  then show ?thesis
    using run_calls_shape [of provider cfg frm]
    by (simp add: agent_reply request_of_def split: option.splits)
qed

theorem stage_temperatures_fixed_witness:
  "hd (calls (run (const_stub (Response [Some (lit ''# Post'')])) cfg0 frm0)) \<in> set (calls (run (const_stub (Response [Some (lit ''# Post'')])) cfg0 frm0)) \<and>
   rq_api_key (hd (calls (run (const_stub (Response [Some (lit ''# Post'')])) cfg0 frm0))) = Some (lit ''sk-test'') \<and>
   rq_model (hd (calls (run (const_stub (Response [Some (lit ''# Post'')])) cfg0 frm0))) = lit ''gpt-4o-mini'' \<and>
   rq_max_tokens (hd (calls (run (const_stub (Response [Some (lit ''# Post'')])) cfg0 frm0))) = 1200 \<and>
   rq_temperature (hd (calls (run (const_stub (Response [Some (lit ''# Post'')])) cfg0 frm0))) = 4 / 10"
proof -
  have v: "run_button frm0" "api_key cfg0 \<noteq> []" "topic frm0 \<noteq> []" "audience frm0 \<noteq> []"
    by (simp_all add: frm0_def cfg0_def)
  from run_first_call [OF v, of "const_stub (Response [Some (lit ''# Post'')])"]
  have ne: "calls (run (const_stub (Response [Some (lit ''# Post'')])) cfg0 frm0) \<noteq> []"
    and t: "rq_temperature (hd (calls (run (const_stub (Response [Some (lit ''# Post'')])) cfg0 frm0))) = 4 / 10"
    by (simp_all add: request_of_def)
  from ne have "hd (calls (run (const_stub (Response [Some (lit ''# Post'')])) cfg0 frm0)) \<in> set (calls (run (const_stub (Response [Some (lit ''# Post'')])) cfg0 frm0))"
    by simp
  with t show ?thesis
    using stage_temperatures_fixed [of "const_stub (Response [Some (lit ''# Post'')])" cfg0 _ _ _ _ _ _ _ _ _ frm0]
    by (simp add: cfg0_def)
qed

text \<open>
  C8. With a deterministic provider, a second call of \<open>finalizer_agent\<close> on the same
  edited draft and SEO pack, made after the first, returns the same result as the
  first: the same document, or the same exception.
\<close>

theorem finalizer_same_output_twice:
  "deterministic provider \<Longrightarrow>
     fst (finalizer_agent provider cfg d s (snd (finalizer_agent provider cfg d s sent))) =
     fst (finalizer_agent provider cfg d s sent)"
proof (cases "client_key provider cfg")
  case None
  then show ?thesis by (simp add: finalizer_agent_reply)
next
  case (Some k)
  assume det: "deterministic provider"
  let ?rq = "request_of k cfg finalizer_system (finalizer_user d s) (2 / 10)"
  have "answer provider (length (sent @ [?rq])) ?rq = answer provider (length sent) ?rq"
    using det unfolding deterministic_def by blast
  then have "reply provider (length (sent @ [?rq])) ?rq = reply provider (length sent) ?rq"
    by (simp only: reply_def)
  with Some show ?thesis
    by (simp only: finalizer_agent_reply option.case fst_conv snd_conv)
qed

theorem finalizer_same_output_twice_witness:
  "deterministic (const_stub (Response [Some (lit ''# Post'')])) \<and>
   fst (finalizer_agent (const_stub (Response [Some (lit ''# Post'')])) cfg0
          (Some (lit ''# D'')) (Some (lit ''seo''))
          (snd (finalizer_agent (const_stub (Response [Some (lit ''# Post'')])) cfg0
                  (Some (lit ''# D'')) (Some (lit ''seo'')) []))) =
   Inr \<lparr>role = lit ''Finalizer'', output = Some (lit ''# Post'')\<rparr>"
proof -
  let ?p = "const_stub (Response [Some (lit ''# Post'')])"
  have det: "deterministic ?p"
    by (simp add: deterministic_def const_stub_def)
  have "fst (finalizer_agent ?p cfg0 (Some (lit ''# D'')) (Some (lit ''seo'')) []) =
        Inr \<lparr>role = lit ''Finalizer'', output = Some (lit ''# Post'')\<rparr>"
    by (simp add: finalizer_agent_reply reply_def const_stub_def client_key_def cfg0_def)
  with det finalizer_same_output_twice [OF det, of cfg0 "Some (lit ''# D'')" "Some (lit ''seo'')" "[]"]
  show ?thesis by simp
qed

text \<open>
  C9. The prompt of \<open>editing_agent\<close> is the same for every audience: it is built from
  the draft and the tone only. For the draft "# Draft", the audience "HR managers" and the
  tone "Professional", the conversation of the request made (one request, unless no
  client can be built for want of a key) is the system message and this prompt, and
  neither contains the audience.
\<close>

theorem editing_prompt_lacks_audience:
  "editing_user d a tn = editing_user d a' tn
   \<and> map rq_messages
       (snd (editing_agent provider cfg (Some (lit ''# Draft'')) (lit ''HR managers'')
               (lit ''Professional'') [])) =
     (if client_key provider cfg = None then []
      else [[(lit ''system'', editing_system),
             (lit ''user'',
              editing_user (Some (lit ''# Draft'')) (lit ''HR managers'') (lit ''Professional''))]])
   \<and> \<not> sublist (lit ''HR managers'') editing_system
   \<and> \<not> sublist (lit ''HR managers'')
         (editing_user (Some (lit ''# Draft'')) (lit ''HR managers'') (lit ''Professional''))"
proof -
  have "72 \<in> set (lit ''HR managers'')" by (simp add: lit_def)
  with edit_no_H have "\<not> sublist (lit ''HR managers'') editing_system"
    "\<not> sublist (lit ''HR managers'')
         (editing_user (Some (lit ''# Draft'')) (lit ''HR managers'') (lit ''Professional''))"
    using set_mono_sublist by blast+
  moreover have "editing_user d a tn = editing_user d a' tn"
    by (simp add: editing_user_def)
  ultimately show ?thesis
    by (simp add: editing_agent_reply request_of_def split: option.splits)
qed

text \<open>
  C10. Every element of the keyword list is a non-empty string whose first and last
  characters are not white space, and a raw input made of commas and white space only
  gives the empty list.
\<close>

theorem kw_list_clean:
  "(\<forall>k \<in> set (kw_list raw). k \<noteq> [] \<and> \<not> is_space (hd k) \<and> \<not> is_space (last k)) \<and>
   ((\<forall>c \<in> set raw. c = 44 \<or> is_space c) \<longrightarrow> kw_list raw = [])"
proof (rule conjI)
  show "\<forall>k \<in> set (kw_list raw). k \<noteq> [] \<and> \<not> is_space (hd k) \<and> \<not> is_space (last k)"
  proof
    fix k assume "k \<in> set (kw_list raw)"
    then obtain p where "k = strip p" "strip p \<noteq> []"
      by (auto simp: kw_list_def split: if_splits)
    then show "k \<noteq> [] \<and> \<not> is_space (hd k) \<and> \<not> is_space (last k)"
      using strip_clean [of p] by simp
  qed
next
  show "(\<forall>c \<in> set raw. c = 44 \<or> is_space c) \<longrightarrow> kw_list raw = []"
  proof
    assume all: "\<forall>c \<in> set raw. c = 44 \<or> is_space c"
    have "strip p = []" if "p \<in> set (split 44 raw)" for p
    proof -
      from split_pieces [OF that] all have "\<forall>c \<in> set p. is_space c" by auto
      then show ?thesis by (rule strip_all_space)
    qed
    then show "kw_list raw = []"
      by (auto simp: kw_list_def filter_empty_conv)
  qed
qed

theorem kw_list_clean_witness:
  "kw_list (lit '' remote work , ,hr'') = [lit ''remote work'', lit ''hr''] \<and>
   lit ''remote work'' \<noteq> [] \<and>
   \<not> is_space (hd (lit ''remote work'')) \<and> \<not> is_space (last (lit ''remote work'')) \<and>
   \<not> is_space (hd (lit ''hr'')) \<and> \<not> is_space (last (lit ''hr'')) \<and>
   kw_list (lit '', ,'') = []"
proof -
  have h: "\<forall>c \<in> set (lit '', ,''). c = 44 \<or> is_space c"
    by (simp add: lit_def is_space_def)
  show ?thesis
    using kw_list_clean [of "lit '' remote work , ,hr''"] kw_list_clean [of "lit '', ,''"] h
    by (simp add: kw_ex1)
qed

end
